theory Spec2Isabelle
  imports Complex_Main "HOL-Library.Word"
begin

section \<open>Machine types and constants\<close>

text \<open>
  The host program is C++: \<open>int\<close> is a 32-bit word, read in two's complement by \<open>sint\<close>, and
  \<open>unsigned int\<close> a 32-bit unsigned word. A \<open>float\<close> is read as a real number, and
  a literal as the number written; nothing below depends on rounding.
\<close>

type_synonym c_int = "32 word"
type_synonym c_uint = "32 word"

text \<open>Window dimensions (main.cpp, lines 12-13).\<close>

definition SCR_WIDTH :: c_uint where
  "SCR_WIDTH = 800"

definition SCR_HEIGHT :: c_uint where
  "SCR_HEIGHT = 600"

text \<open>The enum \<open>CoordinateSpace\<close> (main.cpp, lines 16-21).\<close>

definition MODEL_SPACE :: c_int where
  "MODEL_SPACE = 0"

definition WORLD_SPACE :: c_int where
  "WORLD_SPACE = 1"

definition VIEW_SPACE :: c_int where
  "VIEW_SPACE = 2"

definition CLIP_SPACE :: c_int where
  "CLIP_SPACE = 3"

text \<open>
  The macros of the GLFW 3 header \<open>GLFW/glfw3.h\<close> that the program uses, at the values
  that header gives them.
\<close>

definition GLFW_RELEASE :: c_int where
  "GLFW_RELEASE = 0"

definition GLFW_PRESS :: c_int where
  "GLFW_PRESS = 1"

definition GLFW_REPEAT :: c_int where
  "GLFW_REPEAT = 2"

definition GLFW_KEY_1 :: c_int where
  "GLFW_KEY_1 = 49"

definition GLFW_KEY_2 :: c_int where
  "GLFW_KEY_2 = 50"

definition GLFW_KEY_3 :: c_int where
  "GLFW_KEY_3 = 51"

definition GLFW_KEY_4 :: c_int where
  "GLFW_KEY_4 = 52"

definition GLFW_KEY_ESCAPE :: c_int where
  "GLFW_KEY_ESCAPE = 256"

section \<open>The calls into the math library\<close>

text \<open>
  The matrices of the host program are values of \<open>glm::mat4\<close>, built by calls into the
  GLM library, which is not part of the program. A matrix is recorded as the call that
  built it, with the arguments the program passed: \<open>Mat4 d\<close> is \<open>glm::mat4(d)\<close> (the
  diagonal matrix, the identity for \<open>d = 1\<close>), \<open>Rotate m angle axis\<close> is
  \<open>glm::rotate(m, angle, axis)\<close>, \<open>Translate m v\<close> is \<open>glm::translate(m, v)\<close> and
  \<open>Perspective fovy aspect zNear zFar\<close> is \<open>glm::perspective(fovy, aspect, zNear, zFar)\<close>.
  What is proved of these terms holds for every implementation of the four functions.
\<close>

datatype glm_mat4 =
  Mat4 real
| Rotate glm_mat4 real "real \<times> real \<times> real"
| Translate glm_mat4 "real \<times> real \<times> real"
| Perspective (fovy: real) (aspect: real) (zNear: real) (zFar: real)

text \<open>\<open>glm::radians\<close>: an angle given in degrees, in radians.\<close>

definition radians :: "real \<Rightarrow> real" where
  "radians degrees = degrees * (pi / 180)"

section \<open>The vertex shader\<close>

text \<open>
  The GLSL vertex shader (lines 27-64). A \<open>mat4\<close> is its four columns; \<open>*\<close> between
  matrices and vectors is the linear-algebraic product, and \<open>a * b * c * v\<close> groups to
  the left. The component type is any type with \<open>0\<close>, \<open>1\<close>, \<open>+\<close> and \<open>*\<close>: no law of
  arithmetic is used, so what is proved holds for GLSL's \<open>float\<close> as for the reals.
\<close>

type_synonym 'a vec3 = "'a \<times> 'a \<times> 'a"
type_synonym 'a vec4 = "'a \<times> 'a \<times> 'a \<times> 'a"
type_synonym 'a mat4 = "'a vec4 \<times> 'a vec4 \<times> 'a vec4 \<times> 'a vec4"

text \<open>The constructor \<open>vec4(v, w)\<close>.\<close>

fun vec4 :: "'a vec3 \<Rightarrow> 'a \<Rightarrow> 'a vec4" where
  "vec4 (x, y, z) w = (x, y, z, w)"

text \<open>\<open>m * v\<close>: the columns of \<open>m\<close>, scaled by the components of \<open>v\<close>, added up.\<close>

fun mat_vec :: "'a::{plus,times} mat4 \<Rightarrow> 'a vec4 \<Rightarrow> 'a vec4" where
  "mat_vec ((a0, a1, a2, a3), (b0, b1, b2, b3), (c0, c1, c2, c3), (d0, d1, d2, d3))
       (x, y, z, w) =
     (a0 * x + b0 * y + c0 * z + d0 * w,
      a1 * x + b1 * y + c1 * z + d1 * w,
      a2 * x + b2 * y + c2 * z + d2 * w,
      a3 * x + b3 * y + c3 * z + d3 * w)"

text \<open>\<open>m * n\<close>: each column of \<open>n\<close>, multiplied by \<open>m\<close>.\<close>

fun mat_mul :: "'a::{plus,times} mat4 \<Rightarrow> 'a mat4 \<Rightarrow> 'a mat4" where
  "mat_mul m (c0, c1, c2, c3) = (mat_vec m c0, mat_vec m c1, mat_vec m c2, mat_vec m c3)"

text \<open>
  The outputs of the shader. An output that the shader's \<open>main\<close> never assigns has no
  defined value: it is \<open>None\<close>.
\<close>

record 'a vs_out =
  gl_Position :: "'a vec4 option"
  vertexColor :: "'a vec3 option"

definition vertex_shader ::
  "'a::{zero,one,plus,times} mat4 \<Rightarrow> 'a mat4 \<Rightarrow> 'a mat4 \<Rightarrow> c_int \<Rightarrow> 'a vec3 \<Rightarrow> 'a vs_out" where
  "vertex_shader model view projection space aPos =
     (let modelPos = vec4 aPos 1;
          worldPos = mat_vec model modelPos;
          viewPos = mat_vec view worldPos;
          clipPos = mat_vec projection viewPos
      in if space = 0 then
           \<lparr>gl_Position = Some (mat_vec (mat_mul projection view) (vec4 aPos 1)),
            vertexColor = Some (1, 0, 0)\<rparr>
         else if space = 1 then
           \<lparr>gl_Position = Some (mat_vec (mat_mul (mat_mul projection view) model) (vec4 aPos 1)),
            vertexColor = Some (0, 1, 0)\<rparr>
         else if space = 2 then
           \<lparr>gl_Position = Some (mat_vec (mat_mul (mat_mul projection view) model) (vec4 aPos 1)),
            vertexColor = Some (0, 0, 1)\<rparr>
         else if space = 3 then
           \<lparr>gl_Position = Some (mat_vec (mat_mul (mat_mul projection view) model) (vec4 aPos 1)),
            vertexColor = Some (1, 1, 0)\<rparr>
         else \<lparr>gl_Position = None, vertexColor = None\<rparr>)"

section \<open>The geometry\<close>

text \<open>The arrays \<open>vertices\<close> (lines 150-162) and \<open>indices\<close> (lines 164-188).\<close>

definition vertices :: "real list" where
  "vertices =
     [-0.5, -0.5, 0.5,
      0.5, -0.5, 0.5,
      0.5, 0.5, 0.5,
      -0.5, 0.5, 0.5,
      -0.5, -0.5, -0.5,
      0.5, -0.5, -0.5,
      0.5, 0.5, -0.5,
      -0.5, 0.5, -0.5]"

definition indices :: "c_uint list" where
  "indices =
     [0, 1, 2,
      2, 3, 0,
      1, 5, 6,
      6, 2, 1,
      5, 4, 7,
      7, 6, 5,
      4, 0, 3,
      3, 7, 4,
      3, 2, 6,
      6, 7, 3,
      4, 5, 1,
      1, 0, 4]"

text \<open>
  The attribute layout of line 204: attribute 0 of vertex \<open>i\<close> is three floats, at a stride
  of three floats from offset 0. A read past the end of the buffer is \<open>None\<close>.
\<close>

definition fetch_vertex :: "real list \<Rightarrow> nat \<Rightarrow> real vec3 option" where
  "fetch_vertex buf i =
     (if 3 * i + 2 < length buf then Some (buf ! (3 * i), buf ! (3 * i + 1), buf ! (3 * i + 2))
      else None)"

text \<open>\<open>GL_TRIANGLES\<close> groups the vertices in threes.\<close>

fun triangles :: "'a list \<Rightarrow> ('a \<times> 'a \<times> 'a) list" where
  "triangles (a # b # c # xs) = (a, b, c) # triangles xs"
| "triangles xs = []"

text \<open>
  \<open>glDrawElements(GL_TRIANGLES, count, GL_UNSIGNED_INT, 0)\<close>: the first \<open>count\<close> entries of
  the index buffer, each looked up in the vertex buffer, assembled into triangles. The
  result is \<open>None\<close> when the index buffer has fewer entries, or when an index reads
  past the end of the vertex buffer.
\<close>

definition glDrawElements ::
  "real list \<Rightarrow> c_uint list \<Rightarrow> nat \<Rightarrow> (real vec3 \<times> real vec3 \<times> real vec3) list option" where
  "glDrawElements vbo ebo n =
     (if n \<le> length ebo
      then map_option triangles (those (map (\<lambda>i. fetch_vertex vbo (unat i)) (take n ebo)))
      else None)"

text \<open>
  The faces of the cube that a triangle lies in: the pairs of an axis (0, 1, 2 for x, y, z)
  and a value of that coordinate which all three corners share.
\<close>

fun coord :: "nat \<Rightarrow> real vec3 \<Rightarrow> real" where
  "coord axis (x, y, z) = (if axis = 0 then x else if axis = 1 then y else z)"

definition faces_of :: "real vec3 \<times> real vec3 \<times> real vec3 \<Rightarrow> (nat \<times> real) list" where
  "faces_of tri =
     (case tri of (p, q, r) \<Rightarrow>
        filter (\<lambda>(axis, v). coord axis p = v \<and> coord axis q = v \<and> coord axis r = v)
          [(0, - 0.5), (0, 0.5), (1, - 0.5), (1, 0.5), (2, - 0.5), (2, 0.5)])"

section \<open>The state of the program\<close>

text \<open>
  What the program passes to the GPU and to the window in one iteration of the render
  loop: the four uniforms (lines 241-244), the count of \<open>glDrawElements\<close> (line 248)
  with the triangles it draws from the buffers of the bound vertex array (\<open>vertices\<close>
  and \<open>indices\<close>, lines 195-201), and the window title (line 266).
\<close>

record frame =
  model_uniform :: glm_mat4
  view_uniform :: glm_mat4
  projection_uniform :: glm_mat4
  activeSpace_uniform :: c_int
  draw_count :: nat
  drawn :: "(real vec3 \<times> real vec3 \<times> real vec3) list option"
  window_title :: string

text \<open>
  The state: the global \<open>activeSpace\<close> (line 24); of the GLFW window, its close-request
  flag and the last state GLFW reported for each key (what \<open>glfwGetKey\<close> reads); of
  the GL context, the arguments of the last \<open>glViewport\<close> call the program made, if any;
  and the frames rendered so far, oldest first.
\<close>

record state =
  activeSpace :: c_int
  shouldClose :: bool
  keys :: "c_int \<Rightarrow> c_int"
  viewport :: "(c_int \<times> c_int \<times> c_int \<times> c_int) option"
  frames :: "frame list"

text \<open>
  The state when the render loop is first reached: \<open>activeSpace\<close> has its initialiser
  \<open>MODEL_SPACE\<close>, the new window has no close request and reports every key released,
  and the program has not called \<open>glViewport\<close>.
\<close>

definition initial_state :: state where
  "initial_state =
     \<lparr>activeSpace = MODEL_SPACE, shouldClose = False, keys = (\<lambda>k. GLFW_RELEASE),
      viewport = None, frames = []\<rparr>"

section \<open>The callbacks\<close>

text \<open>
  \<open>key_callback\<close> (lines 297-315). The window argument is left out: there is one window.
  The \<open>switch\<close> has no \<open>default\<close> label.
\<close>

definition key_callback :: "c_int \<Rightarrow> c_int \<Rightarrow> c_int \<Rightarrow> c_int \<Rightarrow> state \<Rightarrow> state" where
  "key_callback key scancode action mods s =
     (if action = GLFW_PRESS then
        (if key = GLFW_KEY_1 then s\<lparr>activeSpace := MODEL_SPACE\<rparr>
         else if key = GLFW_KEY_2 then s\<lparr>activeSpace := WORLD_SPACE\<rparr>
         else if key = GLFW_KEY_3 then s\<lparr>activeSpace := VIEW_SPACE\<rparr>
         else if key = GLFW_KEY_4 then s\<lparr>activeSpace := CLIP_SPACE\<rparr>
         else s)
      else s)"

text \<open>\<open>framebuffer_size_callback\<close> (lines 291-294): \<open>glViewport(0, 0, width, height)\<close>.\<close>

definition framebuffer_size_callback :: "c_int \<Rightarrow> c_int \<Rightarrow> state \<Rightarrow> state" where
  "framebuffer_size_callback width height s = s\<lparr>viewport := Some (0, 0, width, height)\<rparr>"

text \<open>
  \<open>glfwGetKey\<close> returns the last state reported for the key, \<open>GLFW_PRESS\<close> or
  \<open>GLFW_RELEASE\<close>; \<open>processInput\<close> (lines 284-288) polls it for Escape.
\<close>

definition glfwGetKey :: "state \<Rightarrow> c_int \<Rightarrow> c_int" where
  "glfwGetKey s key = keys s key"

definition processInput :: "state \<Rightarrow> state" where
  "processInput s =
     (if glfwGetKey s GLFW_KEY_ESCAPE = GLFW_PRESS then s\<lparr>shouldClose := True\<rparr> else s)"

section \<open>Event dispatch\<close>

text \<open>
  \<open>glfwPollEvents\<close> (line 270) delivers the pending window events in order. A key event
  carries the arguments of the key callback; before the callback runs, GLFW records the
  key's new state: released for \<open>GLFW_RELEASE\<close>, pressed otherwise (\<open>GLFW_REPEAT\<close> is
  reported to the callback only). A framebuffer-size event runs
  \<open>framebuffer_size_callback\<close>. A close event (the user closes the window) sets the
  close-request flag.
\<close>

datatype event =
  KeyEvent c_int c_int c_int c_int
| FramebufferSize c_int c_int
| WindowClose

fun dispatch :: "event \<Rightarrow> state \<Rightarrow> state" where
  "dispatch (KeyEvent key scancode action mods) s =
     key_callback key scancode action mods
       (s\<lparr>keys := (keys s)(key := (if action = GLFW_RELEASE then GLFW_RELEASE else GLFW_PRESS))\<rparr>)"
| "dispatch (FramebufferSize width height) s = framebuffer_size_callback width height s"
| "dispatch WindowClose s = s\<lparr>shouldClose := True\<rparr>"

definition glfwPollEvents :: "event list \<Rightarrow> state \<Rightarrow> state" where
  "glfwPollEvents evs s = fold dispatch evs s"

section \<open>The render loop\<close>

text \<open>
  The body of the loop between \<open>processInput\<close> and \<open>glfwPollEvents\<close> (lines 219-269),
  at the time \<open>t\<close> that \<open>(float)glfwGetTime()\<close> returns. The \<open>switch\<close> over
  \<open>activeSpace\<close> (lines 252-265) has no \<open>default\<close> label: \<open>spaceInfo\<close> stays empty.
\<close>

definition render :: "real \<Rightarrow> state \<Rightarrow> state" where
  "render t s =
     (let model = Rotate (Mat4 1) t (0.5, 1, 0);
          view = Translate (Mat4 1) (0, 0, -3);
          projection = Perspective (radians 45)
            (real (unat SCR_WIDTH) / real (unat SCR_HEIGHT)) 0.1 100;
          spaceInfo =
            (if activeSpace s = MODEL_SPACE then ''MODEL SPACE (Press 1-4 to change)''
             else if activeSpace s = WORLD_SPACE then ''WORLD SPACE (Press 1-4 to change)''
             else if activeSpace s = VIEW_SPACE then ''VIEW SPACE (Press 1-4 to change)''
             else if activeSpace s = CLIP_SPACE then ''CLIP SPACE (Press 1-4 to change)''
             else '''')
      in s\<lparr>frames := frames s @
           [\<lparr>model_uniform = model, view_uniform = view, projection_uniform = projection,
             activeSpace_uniform = activeSpace s, draw_count = 36,
             drawn = glDrawElements vertices indices 36,
             window_title = ''Vertex Transformation Pipeline - '' @ spaceInfo\<rparr>]\<rparr>)"

text \<open>One iteration of the loop (lines 216-270).\<close>

definition iteration :: "real \<times> event list \<Rightarrow> state \<Rightarrow> state" where
  "iteration inp s = glfwPollEvents (snd inp) (render (fst inp) (processInput s))"

text \<open>
  The loop \<open>while (!glfwWindowShouldClose(window))\<close> (line 214), over the inputs of the
  iterations to come: the time and the events polled at the end of each. The loop may run
  for ever; \<open>None\<close> says that it is still running when the given inputs are used up.
\<close>

fun render_loop :: "(real \<times> event list) list \<Rightarrow> state \<Rightarrow> state option" where
  "render_loop [] s = (if shouldClose s then Some s else None)"
| "render_loop (inp # inps) s =
     (if shouldClose s then Some s else render_loop inps (iteration inp s))"

text \<open>
  The states the program can be in: the initial one, and those after a poll of the input,
  a rendered frame or a dispatched event.
\<close>

inductive reachable :: "state \<Rightarrow> bool" where
  reachable_initial: "reachable initial_state"
| reachable_input: "reachable s \<Longrightarrow> reachable (processInput s)"
| reachable_render: "reachable s \<Longrightarrow> reachable (render t s)"
| reachable_event: "reachable s \<Longrightarrow> reachable (dispatch ev s)"

section \<open>The program\<close>

text \<open>
  What the environment decides in a run of \<open>main\<close> (lines 83-281): whether
  \<open>glfwCreateWindow\<close> returns a window, whether \<open>gladLoadGLLoader\<close> succeeds, the
  compile and link status of the shaders with their info logs, and the inputs of the
  render loop.
\<close>

record env =
  window_created :: bool
  glad_loaded :: bool
  vertex_compiled :: bool
  vertex_log :: string
  fragment_compiled :: bool
  fragment_log :: string
  program_linked :: bool
  program_log :: string
  inputs :: "(real \<times> event list) list"

text \<open>The text written to \<open>std::cout\<close> by the three status checks (lines 115-145).\<close>

definition endl :: string where
  "endl = [CHR 0x0A]"

definition shader_diagnostics :: "env \<Rightarrow> string" where
  "shader_diagnostics e =
     (if \<not> vertex_compiled e
      then ''ERROR::SHADER::VERTEX::COMPILATION_FAILED'' @ endl @ vertex_log e @ endl
      else []) @
     (if \<not> fragment_compiled e
      then ''ERROR::SHADER::FRAGMENT::COMPILATION_FAILED'' @ endl @ fragment_log e @ endl
      else []) @
     (if \<not> program_linked e
      then ''ERROR::SHADER::PROGRAM::LINKING_FAILED'' @ endl @ program_log e @ endl
      else [])"

text \<open>
  \<open>main\<close>: the text written to \<open>std::cout\<close>, and the exit code with the state the
  render loop ended in (the initial state when the loop was never reached); \<open>None\<close> in
  place of the exit code says that the loop is still running.
\<close>

definition main :: "env \<Rightarrow> string \<times> (c_int \<times> state) option" where
  "main e =
     (if \<not> window_created e then
        (''Failed to create GLFW window'' @ endl, Some (- 1, initial_state))
      else if \<not> glad_loaded e then
        (''Failed to initialize GLAD'' @ endl, Some (- 1, initial_state))
      else
        (shader_diagnostics e,
         case render_loop (inputs e) initial_state of
           None \<Rightarrow> None
         | Some s \<Rightarrow> Some (0, s)))"

section \<open>Facts about the definitions\<close>

lemmas enum_defs = MODEL_SPACE_def WORLD_SPACE_def VIEW_SPACE_def CLIP_SPACE_def

lemmas glfw_defs = GLFW_RELEASE_def GLFW_PRESS_def GLFW_REPEAT_def GLFW_KEY_1_def
  GLFW_KEY_2_def GLFW_KEY_3_def GLFW_KEY_4_def GLFW_KEY_ESCAPE_def

subsection \<open>The scene state\<close>

lemma key_callback_activeSpace_range:
  "activeSpace s \<in> {0, 1, 2, 3} \<Longrightarrow>
   activeSpace (key_callback key scancode action mods s) \<in> {0, 1, 2, 3}"
  by (simp add: key_callback_def enum_defs)

lemma dispatch_activeSpace_range:
  "activeSpace s \<in> {0, 1, 2, 3} \<Longrightarrow> activeSpace (dispatch ev s) \<in> {0, 1, 2, 3}"
proof (cases ev)
  case (KeyEvent key scancode action mods)
  assume "activeSpace s \<in> {0, 1, 2, 3}"
  then have "activeSpace (s\<lparr>keys := (keys s)(key :=
      (if action = GLFW_RELEASE then GLFW_RELEASE else GLFW_PRESS))\<rparr>) \<in> {0, 1, 2, 3}"
    by simp
  then show ?thesis
    unfolding KeyEvent dispatch.simps by (rule key_callback_activeSpace_range)
next
  case (FramebufferSize width height)
  assume "activeSpace s \<in> {0, 1, 2, 3}"
  then show ?thesis by (simp add: FramebufferSize framebuffer_size_callback_def)
next
  case WindowClose
  assume "activeSpace s \<in> {0, 1, 2, 3}"
  then show ?thesis by (simp add: WindowClose)
qed

lemma reachable_activeSpace_range: "reachable s \<Longrightarrow> activeSpace s \<in> {0, 1, 2, 3}"
proof (induction rule: reachable.induct)
  case reachable_initial
  show ?case by (simp add: initial_state_def enum_defs)
next
  case (reachable_input s)
  then show ?case by (simp add: processInput_def)
next
  case (reachable_render s t)
  then show ?case by (simp add: render_def)
next
  case (reachable_event s ev)
  from reachable_event.IH show ?case by (rule dispatch_activeSpace_range)
qed

lemma activeSpace_processInput: "activeSpace (processInput s) = activeSpace s"
  by (simp add: processInput_def)

subsection \<open>The frames and the states of the loop\<close>

lemma frames_processInput: "frames (processInput s) = frames s"
  by (simp add: processInput_def)

lemma frames_dispatch: "frames (dispatch ev s) = frames s"
  by (cases ev) (simp_all add: key_callback_def framebuffer_size_callback_def)

lemma frames_glfwPollEvents: "frames (glfwPollEvents evs s) = frames s"
  unfolding glfwPollEvents_def
  by (induction evs arbitrary: s) (simp_all add: frames_dispatch)

text \<open>The frame that \<open>render\<close> adds: everything in it but the title is fixed by \<open>t\<close> and
  \<open>activeSpace\<close>.\<close>

lemma frames_render:
  "\<exists>title. frames (render t s) = frames s @
     [\<lparr>model_uniform = Rotate (Mat4 1) t (0.5, 1, 0),
       view_uniform = Translate (Mat4 1) (0, 0, - 3),
       projection_uniform = Perspective (radians 45)
         (real (unat SCR_WIDTH) / real (unat SCR_HEIGHT)) 0.1 100,
       activeSpace_uniform = activeSpace s, draw_count = 36,
       drawn = glDrawElements vertices indices 36,
       window_title = title\<rparr>]"
  by (simp add: render_def Let_def)

lemma frames_iteration:
  "\<exists>title. frames (iteration (t, evs) s) = frames s @
     [\<lparr>model_uniform = Rotate (Mat4 1) t (0.5, 1, 0),
       view_uniform = Translate (Mat4 1) (0, 0, - 3),
       projection_uniform = Perspective (radians 45)
         (real (unat SCR_WIDTH) / real (unat SCR_HEIGHT)) 0.1 100,
       activeSpace_uniform = activeSpace s, draw_count = 36,
       drawn = glDrawElements vertices indices 36,
       window_title = title\<rparr>]"
  using frames_render [of t "processInput s"]
  by (simp add: iteration_def frames_glfwPollEvents frames_processInput
      activeSpace_processInput)

lemma frames_fold_iteration:
  "\<exists>fs. frames (fold iteration inps s) = frames s @ fs \<and>
     (\<forall>f \<in> set fs. projection_uniform f =
        Perspective (radians 45) (real (unat SCR_WIDTH) / real (unat SCR_HEIGHT)) 0.1 100)"
proof (induction inps arbitrary: s)
  case Nil
  show ?case by simp
next
  case (Cons inp inps)
  obtain t evs where inp: "inp = (t, evs)" by (cases inp)
  obtain fs where fs: "frames (fold iteration inps (iteration inp s)) =
      frames (iteration inp s) @ fs"
    and all: "\<forall>f \<in> set fs. projection_uniform f =
        Perspective (radians 45) (real (unat SCR_WIDTH) / real (unat SCR_HEIGHT)) 0.1 100"
    using Cons.IH by blast
  obtain f where f: "frames (iteration inp s) = frames s @ [f]"
    and p: "projection_uniform f =
        Perspective (radians 45) (real (unat SCR_WIDTH) / real (unat SCR_HEIGHT)) 0.1 100"
    using frames_iteration [of t evs s] unfolding inp by auto
  have "frames (fold iteration (inp # inps) s) = frames s @ (f # fs)"
    by (simp add: fs f)
  moreover have "\<forall>g \<in> set (f # fs). projection_uniform g =
        Perspective (radians 45) (real (unat SCR_WIDTH) / real (unat SCR_HEIGHT)) 0.1 100"
    using all p by simp
  ultimately show ?case by blast
qed

lemma reachable_glfwPollEvents: "reachable s \<Longrightarrow> reachable (glfwPollEvents evs s)"
  unfolding glfwPollEvents_def
  by (induction evs arbitrary: s) (simp_all add: reachable_event)

lemma reachable_iteration: "reachable s \<Longrightarrow> reachable (iteration inp s)"
  unfolding iteration_def
  by (intro reachable_glfwPollEvents reachable_render reachable_input)

lemma reachable_render_loop:
  "reachable s \<Longrightarrow> render_loop inps s = Some s' \<Longrightarrow> reachable s'"
  by (induction inps arbitrary: s) (auto split: if_splits intro: reachable_iteration)

lemma reachable_frames_uniform:
  "reachable s \<Longrightarrow> f \<in> set (frames s) \<Longrightarrow> activeSpace_uniform f \<in> {0, 1, 2, 3}"
proof (induction arbitrary: f rule: reachable.induct)
  case reachable_initial
  then show ?case by (simp add: initial_state_def)
next
  case (reachable_input s)
  then show ?case by (simp add: frames_processInput)
next
  case (reachable_render s t)
  from reachable_render.prems
  have "f \<in> set (frames s) \<or> activeSpace_uniform f = activeSpace s"
    using frames_render [of t s] by auto
  then show ?case
    using reachable_render.IH reachable_activeSpace_range [OF reachable_render.hyps] by auto
next
  case (reachable_event s ev)
  then show ?case by (simp add: frames_dispatch)
qed

subsection \<open>The close request and the viewport\<close>

lemma shouldClose_dispatch: "shouldClose s \<Longrightarrow> shouldClose (dispatch ev s)"
  by (cases ev) (simp_all add: key_callback_def framebuffer_size_callback_def)

lemma shouldClose_glfwPollEvents: "shouldClose s \<Longrightarrow> shouldClose (glfwPollEvents evs s)"
  unfolding glfwPollEvents_def
  by (induction evs arbitrary: s) (simp_all add: shouldClose_dispatch)

lemma shouldClose_WindowClose:
  "WindowClose \<in> set evs \<Longrightarrow> shouldClose (glfwPollEvents evs s)"
proof (induction evs arbitrary: s)
  case Nil
  then show ?case by simp
next
  case (Cons ev evs)
  show ?case
  proof (cases "ev = WindowClose")
    case True
    have "shouldClose (glfwPollEvents evs (dispatch WindowClose s))"
      by (rule shouldClose_glfwPollEvents) simp
    then show ?thesis by (simp add: True glfwPollEvents_def)
  next
    case False
    with Cons.prems have "WindowClose \<in> set evs" by simp
    then have "shouldClose (glfwPollEvents evs (dispatch ev s))" by (rule Cons.IH)
    then show ?thesis by (simp add: glfwPollEvents_def)
  qed
qed

lemma shouldClose_render: "shouldClose (render t s) = shouldClose s"
  by (simp add: render_def Let_def)

lemma keys_key_callback: "keys (key_callback key scancode action mods s) = keys s"
  by (simp add: key_callback_def)

lemma viewport_processInput: "viewport (processInput s) = viewport s"
  by (simp add: processInput_def)

lemma viewport_render: "viewport (render t s) = viewport s"
  by (simp add: render_def Let_def)

lemma render_loop_closed: "shouldClose s \<Longrightarrow> render_loop inps s = Some s"
  by (cases inps) simp_all

text \<open>The loop ends once a close event is among the events polled.\<close>

lemma render_loop_terminates:
  "\<exists>inp \<in> set inps. WindowClose \<in> set (snd inp) \<Longrightarrow> \<exists>s'. render_loop inps s = Some s'"
proof (induction inps arbitrary: s)
  case Nil
  then show ?case by simp
next
  case (Cons inp inps)
  show ?case
  proof (cases "shouldClose s")
    case True
    then show ?thesis by simp
  next
    case not_closed: False
    show ?thesis
    proof (cases "WindowClose \<in> set (snd inp)")
      case True
      then have "shouldClose (iteration inp s)"
        unfolding iteration_def by (rule shouldClose_WindowClose)
      then have "render_loop inps (iteration inp s) = Some (iteration inp s)"
        by (rule render_loop_closed)
      with not_closed show ?thesis by simp
    next
      case False
      with Cons.prems have "\<exists>inp \<in> set inps. WindowClose \<in> set (snd inp)" by simp
      then obtain s' where "render_loop inps (iteration inp s) = Some s'"
        using Cons.IH by blast
      with not_closed show ?thesis by simp
    qed
  qed
qed

lemma shader_diagnostics_empty:
  "shader_diagnostics e = [] \<longleftrightarrow> vertex_compiled e \<and> fragment_compiled e \<and> program_linked e"
  by (simp add: shader_diagnostics_def)

subsection \<open>The cube\<close>

lemma length_vertices: "length vertices = 8 * 3"
  by (simp add: vertices_def)

lemma length_indices: "length indices = 36"
  by (simp add: indices_def)

lemma set_vertices: "set vertices = {- 0.5, 0.5}"
  by (auto simp: vertices_def)

lemma upt_8: "[0..<8] = [0, 1, 2, 3, 4, 5, 6, 7]"
  by (simp add: upt_rec)

lemma corners:
  "map (fetch_vertex vertices) [0, 1, 2, 3, 4, 5, 6, 7] =
     [Some (- 0.5, - 0.5, 0.5), Some (0.5, - 0.5, 0.5), Some (0.5, 0.5, 0.5),
      Some (- 0.5, 0.5, 0.5), Some (- 0.5, - 0.5, - 0.5), Some (0.5, - 0.5, - 0.5),
      Some (0.5, 0.5, - 0.5), Some (- 0.5, 0.5, - 0.5)]"
  by (simp add: fetch_vertex_def vertices_def)

lemma corners_distinct: "distinct (map (fetch_vertex vertices) [0..<8])"
  unfolding upt_8 corners by simp

lemma corners_set:
  "set (map (fetch_vertex vertices) [0..<8]) =
     Some ` ({- 0.5, 0.5} \<times> {- 0.5, 0.5} \<times> {- 0.5, 0.5})"
  unfolding upt_8 corners by auto

lemma length_triangles_indices: "length (triangles indices) = 12"
  by (simp add: indices_def)

text \<open>The twelve triangles of the draw call, in the order of the index buffer.\<close>

lemma draw_cube:
  "glDrawElements vertices indices 36 = Some
     [((- 0.5, - 0.5, 0.5), (0.5, - 0.5, 0.5), (0.5, 0.5, 0.5)),
      ((0.5, 0.5, 0.5), (- 0.5, 0.5, 0.5), (- 0.5, - 0.5, 0.5)),
      ((0.5, - 0.5, 0.5), (0.5, - 0.5, - 0.5), (0.5, 0.5, - 0.5)),
      ((0.5, 0.5, - 0.5), (0.5, 0.5, 0.5), (0.5, - 0.5, 0.5)),
      ((0.5, - 0.5, - 0.5), (- 0.5, - 0.5, - 0.5), (- 0.5, 0.5, - 0.5)),
      ((- 0.5, 0.5, - 0.5), (0.5, 0.5, - 0.5), (0.5, - 0.5, - 0.5)),
      ((- 0.5, - 0.5, - 0.5), (- 0.5, - 0.5, 0.5), (- 0.5, 0.5, 0.5)),
      ((- 0.5, 0.5, 0.5), (- 0.5, 0.5, - 0.5), (- 0.5, - 0.5, - 0.5)),
      ((- 0.5, 0.5, 0.5), (0.5, 0.5, 0.5), (0.5, 0.5, - 0.5)),
      ((0.5, 0.5, - 0.5), (- 0.5, 0.5, - 0.5), (- 0.5, 0.5, 0.5)),
      ((- 0.5, - 0.5, - 0.5), (0.5, - 0.5, - 0.5), (0.5, - 0.5, 0.5)),
      ((0.5, - 0.5, 0.5), (- 0.5, - 0.5, 0.5), (- 0.5, - 0.5, - 0.5))]"
  by (simp add: glDrawElements_def indices_def fetch_vertex_def vertices_def)

lemma indices_range: "\<forall>i \<in> set indices. unat i \<le> 7"
  by (simp add: indices_def)

lemma fetch_vertex_in_range: "i \<le> 7 \<Longrightarrow> fetch_vertex vertices i \<noteq> None"
  by (simp add: fetch_vertex_def length_vertices)

lemma radians_45: "radians 45 = pi / 4"
  by (simp add: radians_def)

section \<open>The vertex shader's outputs\<close>

text \<open>
  C1. For every vertex position and every \<open>activeSpace\<close> among 0, 1, 2 and 3, the shader
  writes \<open>projection * view * model * vec4(aPos, 1.0)\<close> to \<open>gl_Position\<close> when
  \<open>activeSpace\<close> is 1, 2 or 3, and \<open>projection * view * vec4(aPos, 1.0)\<close>, without the
  model matrix, when it is 0. The colour is red, green, blue or yellow for 0, 1, 2 or 3, and
  is the same whatever the matrices and the position are.
\<close>

theorem vertex_shader_outputs:
  assumes "space \<in> {0, 1, 2, 3}"
  shows "gl_Position (vertex_shader model view projection space aPos) =
           Some (if space = 0 then mat_vec (mat_mul projection view) (vec4 aPos 1)
                 else mat_vec (mat_mul (mat_mul projection view) model) (vec4 aPos 1)) \<and>
         vertexColor (vertex_shader model view projection space aPos) =
           Some (if space = 0 then (1, 0, 0) else if space = 1 then (0, 1, 0)
                 else if space = 2 then (0, 0, 1) else (1, 1, 0)) \<and>
         vertexColor (vertex_shader model' view' projection' space aPos') =
           vertexColor (vertex_shader model view projection space aPos)"
  using assms by (auto simp: vertex_shader_def Let_def)

text \<open>
  At a model matrix that doubles, a view matrix that moves by \<open>(0, 0, -3)\<close> and the
  identity as projection, the vertex \<open>(1, 2, 3)\<close> goes to \<open>(2, 4, 3, 1)\<close>, in blue, for
  \<open>activeSpace = 2\<close>, and to \<open>(1, 2, 0, 1)\<close> for \<open>activeSpace = 0\<close>.
\<close>

theorem vertex_shader_outputs_witness:
  "gl_Position (vertex_shader
      ((2, 0, 0, 0), (0, 2, 0, 0), (0, 0, 2, 0), (0, 0, 0, 1))
      ((1, 0, 0, 0), (0, 1, 0, 0), (0, 0, 1, 0), (0, 0, - 3, 1))
      ((1, 0, 0, 0), (0, 1, 0, 0), (0, 0, 1, 0), (0, 0, 0, 1))
      2 (1, 2, 3 :: int)) = Some (2, 4, 3, 1) \<and>
   vertexColor (vertex_shader
      ((2, 0, 0, 0), (0, 2, 0, 0), (0, 0, 2, 0), (0, 0, 0, 1))
      ((1, 0, 0, 0), (0, 1, 0, 0), (0, 0, 1, 0), (0, 0, - 3, 1))
      ((1, 0, 0, 0), (0, 1, 0, 0), (0, 0, 1, 0), (0, 0, 0, 1))
      2 (1, 2, 3 :: int)) = Some (0, 0, 1) \<and>
   gl_Position (vertex_shader
      ((2, 0, 0, 0), (0, 2, 0, 0), (0, 0, 2, 0), (0, 0, 0, 1))
      ((1, 0, 0, 0), (0, 1, 0, 0), (0, 0, 1, 0), (0, 0, - 3, 1))
      ((1, 0, 0, 0), (0, 1, 0, 0), (0, 0, 1, 0), (0, 0, 0, 1))
      0 (1, 2, 3 :: int)) = Some (1, 2, 0, 1)"
proof -
  have two: "(2::c_int) \<in> {0, 1, 2, 3}" and zero: "(0::c_int) \<in> {0, 1, 2, 3}"
    by simp_all
  show ?thesis
    using vertex_shader_outputs [OF two, where aPos = "(1, 2, 3 :: int)"
        and model = "((2, 0, 0, 0), (0, 2, 0, 0), (0, 0, 2, 0), (0, 0, 0, 1))"
        and view = "((1, 0, 0, 0), (0, 1, 0, 0), (0, 0, 1, 0), (0, 0, - 3, 1))"
        and projection = "((1, 0, 0, 0), (0, 1, 0, 0), (0, 0, 1, 0), (0, 0, 0, 1))"]
      vertex_shader_outputs [OF zero, where aPos = "(1, 2, 3 :: int)"
        and model = "((2, 0, 0, 0), (0, 2, 0, 0), (0, 0, 2, 0), (0, 0, 0, 1))"
        and view = "((1, 0, 0, 0), (0, 1, 0, 0), (0, 0, 1, 0), (0, 0, - 3, 1))"
        and projection = "((1, 0, 0, 0), (0, 1, 0, 0), (0, 0, 1, 0), (0, 0, 0, 1))"]
    by simp
qed

section \<open>Resizing the window\<close>

text \<open>
  C2, as the specification states it, fails: after a resize to 1024 by 512 the viewport is
  \<open>(0, 0, 1024, 512)\<close>, but the next frame's projection is built with the aspect ratio
  800/600 of the constants \<open>SCR_WIDTH\<close> and \<open>SCR_HEIGHT\<close>, not with 1024/512.
\<close>

theorem resize_aspect_counterexample:
  "viewport (dispatch (FramebufferSize 1024 512) initial_state) = Some (0, 0, 1024, 512) \<and>
   aspect (projection_uniform (last (frames
     (iteration (1, []) (dispatch (FramebufferSize 1024 512) initial_state))))) = 800 / 600 \<and>
   aspect (projection_uniform (last (frames
     (iteration (1, []) (dispatch (FramebufferSize 1024 512) initial_state))))) \<noteq>
     real_of_int (sint (1024 :: c_int)) / real_of_int (sint (512 :: c_int))"
  by (simp add: iteration_def glfwPollEvents_def render_def Let_def processInput_def
      glfwGetKey_def framebuffer_size_callback_def initial_state_def SCR_WIDTH_def
      SCR_HEIGHT_def)

text \<open>
  C2, amended. After a window resize to \<open>(W, H)\<close> the viewport is set to the origin
  \<open>(0, 0)\<close> with the dimensions \<open>(W, H)\<close>, and the next frame is rendered with it; the
  projection matrix of every frame rendered after the resize is built with the aspect ratio
  \<open>SCR_WIDTH / SCR_HEIGHT\<close>, which is 800/600, whatever \<open>W\<close> and \<open>H\<close> are.
\<close>

theorem resize_viewport_fixed_aspect:
  "viewport (dispatch (FramebufferSize W H) s) = Some (0, 0, W, H) \<and>
   viewport (render t (processInput (dispatch (FramebufferSize W H) s))) = Some (0, 0, W, H) \<and>
   (\<forall>f \<in> set (drop (length (frames s))
        (frames (fold iteration inps (dispatch (FramebufferSize W H) s)))).
      projection_uniform f =
        Perspective (radians 45) (real (unat SCR_WIDTH) / real (unat SCR_HEIGHT)) 0.1 100 \<and>
      aspect (projection_uniform f) = 800 / 600)"
proof -
  let ?s = "dispatch (FramebufferSize W H) s"
  have v: "viewport ?s = Some (0, 0, W, H)"
    by (simp add: framebuffer_size_callback_def)
  obtain fs where fs: "frames (fold iteration inps ?s) = frames ?s @ fs"
    and all: "\<forall>f \<in> set fs. projection_uniform f =
        Perspective (radians 45) (real (unat SCR_WIDTH) / real (unat SCR_HEIGHT)) 0.1 100"
    using frames_fold_iteration [of inps ?s] by blast
  have "drop (length (frames s)) (frames (fold iteration inps ?s)) = fs"
    unfolding fs frames_dispatch by simp
  with all v show ?thesis
    by (simp add: viewport_render viewport_processInput SCR_WIDTH_def SCR_HEIGHT_def)
qed

text \<open>The second frame after a resize to 1024 by 512: the aspect ratio is 4/3.\<close>

theorem resize_viewport_fixed_aspect_witness:
  "viewport (dispatch (FramebufferSize 1024 512) initial_state) = Some (0, 0, 1024, 512) \<and>
   aspect (projection_uniform (last (frames
     (fold iteration [(1, []), (2, [])] (dispatch (FramebufferSize 1024 512) initial_state))))) =
     4 / 3"
proof -
  let ?s = "fold iteration [(1, []), (2, [])] (dispatch (FramebufferSize 1024 512) initial_state)"
  have "last (frames ?s) \<in> set (drop (length (frames initial_state)) (frames ?s))"
    by (simp add: iteration_def glfwPollEvents_def render_def Let_def processInput_def
        glfwGetKey_def framebuffer_size_callback_def initial_state_def)
  then have "aspect (projection_uniform (last (frames ?s))) = 800 / 600"
    using resize_viewport_fixed_aspect [of 1024 512 initial_state 0 "[(1, []), (2, [])]"]
    by blast
  moreover have "viewport (dispatch (FramebufferSize 1024 512) initial_state) =
      Some (0, 0, 1024, 512)"
    using resize_viewport_fixed_aspect [of 1024 512 initial_state 0 "[(1, []), (2, [])]"]
    by blast
  ultimately show ?thesis by simp
qed

section \<open>The Escape key\<close>

text \<open>
  C3, as the specification states it, fails: \<open>processInput\<close> polls the state of the key
  once per frame and does not see its press edge. When Escape is pressed and released
  between two polls, the close request is never made and the loop goes on; the same two
  events for the key '2' do reach \<open>key_callback\<close>, which is edge-triggered.
\<close>

theorem escape_press_edge_counterexample:
  "\<not> shouldClose (iteration (2, []) (iteration (1,
       [KeyEvent GLFW_KEY_ESCAPE 9 GLFW_PRESS 0, KeyEvent GLFW_KEY_ESCAPE 9 GLFW_RELEASE 0])
       initial_state)) \<and>
   render_loop [(1, [KeyEvent GLFW_KEY_ESCAPE 9 GLFW_PRESS 0,
                     KeyEvent GLFW_KEY_ESCAPE 9 GLFW_RELEASE 0]), (2, []), (3, [])]
     initial_state = None \<and>
   activeSpace (iteration (1,
       [KeyEvent GLFW_KEY_2 11 GLFW_PRESS 0, KeyEvent GLFW_KEY_2 11 GLFW_RELEASE 0])
       initial_state) = WORLD_SPACE"
  by (simp add: iteration_def glfwPollEvents_def render_def Let_def processInput_def
      glfwGetKey_def key_callback_def initial_state_def glfw_defs enum_defs)

text \<open>
  C3, amended. The request is level-triggered: \<open>processInput\<close> sets the close-request
  flag when the last state reported for Escape is pressed at the time of the poll, and
  never clears it. Polling again changes nothing, and the loop ends with the iteration
  whose poll saw the key pressed, whatever the later inputs are: holding the key down does
  not differ from a press seen by one poll. A press (or repeat) of Escape that is the last
  event before a poll is seen by it.
\<close>

theorem escape_level_triggered:
  "shouldClose (processInput s) =
     (shouldClose s \<or> glfwGetKey s GLFW_KEY_ESCAPE = GLFW_PRESS) \<and>
   processInput (processInput s) = processInput s \<and>
   (glfwGetKey s GLFW_KEY_ESCAPE = GLFW_PRESS \<and> \<not> shouldClose s \<longrightarrow>
      render_loop (inp # inps) s = Some (iteration inp s) \<and> shouldClose (iteration inp s)) \<and>
   (action \<noteq> GLFW_RELEASE \<longrightarrow>
      shouldClose (processInput (dispatch (KeyEvent GLFW_KEY_ESCAPE scancode action mods) s)))"
proof -
  have level: "shouldClose (processInput s) =
      (shouldClose s \<or> glfwGetKey s GLFW_KEY_ESCAPE = GLFW_PRESS)"
    by (simp add: processInput_def)
  have idem: "processInput (processInput s) = processInput s"
    by (simp add: processInput_def glfwGetKey_def)
  have ends: "render_loop (inp # inps) s = Some (iteration inp s) \<and> shouldClose (iteration inp s)"
    if held: "glfwGetKey s GLFW_KEY_ESCAPE = GLFW_PRESS" and running: "\<not> shouldClose s"
  proof -
    from held have "shouldClose (render (fst inp) (processInput s))"
      by (simp add: shouldClose_render processInput_def)
    then have closed: "shouldClose (iteration inp s)"
      unfolding iteration_def by (rule shouldClose_glfwPollEvents)
    then have "render_loop inps (iteration inp s) = Some (iteration inp s)"
      by (rule render_loop_closed)
    with running closed show ?thesis by simp
  qed
  have pressed: "shouldClose (processInput
      (dispatch (KeyEvent GLFW_KEY_ESCAPE scancode action mods) s))"
    if "action \<noteq> GLFW_RELEASE"
    using that by (simp add: processInput_def glfwGetKey_def keys_key_callback)
  from level idem ends pressed show ?thesis by blast
qed

text \<open>
  Escape is pressed, then held (a repeat event) through the next frame: the loop ends
  with the first iteration, and the inputs after it are not looked at.
\<close>

theorem escape_level_triggered_witness:
  "render_loop [(1, [KeyEvent GLFW_KEY_ESCAPE 9 GLFW_REPEAT 0]), (2, [])]
     (dispatch (KeyEvent GLFW_KEY_ESCAPE 9 GLFW_PRESS 0) initial_state) =
   Some (iteration (1, [KeyEvent GLFW_KEY_ESCAPE 9 GLFW_REPEAT 0])
     (dispatch (KeyEvent GLFW_KEY_ESCAPE 9 GLFW_PRESS 0) initial_state)) \<and>
   shouldClose (processInput (dispatch (KeyEvent GLFW_KEY_ESCAPE 9 GLFW_PRESS 0) initial_state))"
proof -
  let ?s = "dispatch (KeyEvent GLFW_KEY_ESCAPE 9 GLFW_PRESS 0) initial_state"
  have held: "glfwGetKey ?s GLFW_KEY_ESCAPE = GLFW_PRESS"
    by (simp add: glfwGetKey_def key_callback_def glfw_defs)
  have running: "\<not> shouldClose ?s"
    by (simp add: key_callback_def initial_state_def)
  have press: "GLFW_PRESS \<noteq> GLFW_RELEASE"
    by (simp add: glfw_defs)
  from held running
  have "render_loop [(1, [KeyEvent GLFW_KEY_ESCAPE 9 GLFW_REPEAT 0]), (2, [])] ?s =
      Some (iteration (1, [KeyEvent GLFW_KEY_ESCAPE 9 GLFW_REPEAT 0]) ?s)"
    using escape_level_triggered [of ?s "(1, [KeyEvent GLFW_KEY_ESCAPE 9 GLFW_REPEAT 0])"
        "[(2, [])]" GLFW_PRESS 9 0]
    by blast
  moreover from press have "shouldClose (processInput
      (dispatch (KeyEvent GLFW_KEY_ESCAPE 9 GLFW_PRESS 0) initial_state))"
    using escape_level_triggered [of initial_state "(1, [])" "[]" GLFW_PRESS 9 0]
    by blast
  ultimately show ?thesis by (intro conjI)
qed

section \<open>The input dispatcher\<close>

text \<open>
  C4. For every prior state, \<open>key_callback\<close> at a press (\<open>GLFW_PRESS\<close>) of the key '1',
  '2', '3' or '4' sets \<open>activeSpace\<close> to \<open>MODEL_SPACE = 0\<close>, \<open>WORLD_SPACE = 1\<close>,
  \<open>VIEW_SPACE = 2\<close> or \<open>CLIP_SPACE = 3\<close> and changes nothing else; at any other key, or
  at an action that is not a press (a release, a repeat), it leaves the state as it is.
\<close>

theorem key_callback_transitions:
  "(action = GLFW_PRESS \<and> key = GLFW_KEY_1 \<longrightarrow>
      key_callback key scancode action mods s = s\<lparr>activeSpace := 0\<rparr>) \<and>
   (action = GLFW_PRESS \<and> key = GLFW_KEY_2 \<longrightarrow>
      key_callback key scancode action mods s = s\<lparr>activeSpace := 1\<rparr>) \<and>
   (action = GLFW_PRESS \<and> key = GLFW_KEY_3 \<longrightarrow>
      key_callback key scancode action mods s = s\<lparr>activeSpace := 2\<rparr>) \<and>
   (action = GLFW_PRESS \<and> key = GLFW_KEY_4 \<longrightarrow>
      key_callback key scancode action mods s = s\<lparr>activeSpace := 3\<rparr>) \<and>
   (action \<noteq> GLFW_PRESS \<or> key \<notin> {GLFW_KEY_1, GLFW_KEY_2, GLFW_KEY_3, GLFW_KEY_4} \<longrightarrow>
      key_callback key scancode action mods s = s) \<and>
   MODEL_SPACE = 0 \<and> WORLD_SPACE = 1 \<and> VIEW_SPACE = 2 \<and> CLIP_SPACE = 3"
  by (simp add: key_callback_def enum_defs glfw_defs)

text \<open>
  The transitions at a press of '3', a repeat of '3' and a press of Escape, from
  \<open>WORLD_SPACE\<close>.
\<close>

theorem key_callback_transitions_witness:
  "activeSpace (key_callback GLFW_KEY_3 0 GLFW_PRESS 0 (initial_state\<lparr>activeSpace := 1\<rparr>)) = 2 \<and>
   activeSpace (key_callback GLFW_KEY_3 0 GLFW_REPEAT 0 (initial_state\<lparr>activeSpace := 1\<rparr>)) = 1 \<and>
   activeSpace (key_callback GLFW_KEY_ESCAPE 0 GLFW_PRESS 0 (initial_state\<lparr>activeSpace := 1\<rparr>)) = 1"
proof -
  let ?s = "initial_state\<lparr>activeSpace := 1\<rparr>"
  have pressed: "activeSpace (key_callback GLFW_KEY_3 0 GLFW_PRESS 0 ?s) = 2"
    using key_callback_transitions [of GLFW_PRESS GLFW_KEY_3 0 0 ?s]
    by (simp add: glfw_defs enum_defs)
  have repeated: "activeSpace (key_callback GLFW_KEY_3 0 GLFW_REPEAT 0 ?s) = 1"
    using key_callback_transitions [of GLFW_REPEAT GLFW_KEY_3 0 0 ?s]
    by (simp add: glfw_defs enum_defs)
  have other: "activeSpace (key_callback GLFW_KEY_ESCAPE 0 GLFW_PRESS 0 ?s) = 1"
    using key_callback_transitions [of GLFW_PRESS GLFW_KEY_ESCAPE 0 0 ?s]
    by (simp add: glfw_defs enum_defs)
  from pressed repeated other show ?thesis by (intro conjI)
qed

text \<open>
  C5. \<open>activeSpace\<close> starts as \<open>MODEL_SPACE\<close>, which is 0; \<open>key_callback\<close> keeps it
  among 0, 1, 2 and 3; so it is one of the four in every reachable state, and in the state
  the render loop ends in.
\<close>

theorem activeSpace_invariant:
  "activeSpace initial_state = MODEL_SPACE \<and> MODEL_SPACE = 0 \<and>
   (activeSpace s \<in> {0, 1, 2, 3} \<longrightarrow>
      activeSpace (key_callback key scancode action mods s) \<in> {0, 1, 2, 3}) \<and>
   (reachable s \<longrightarrow> activeSpace s \<in> {0, 1, 2, 3}) \<and>
   (render_loop inps initial_state = Some s \<longrightarrow> activeSpace s \<in> {0, 1, 2, 3})"
proof -
  have "render_loop inps initial_state = Some s \<Longrightarrow> reachable s"
    using reachable_initial by (rule reachable_render_loop)
  then show ?thesis
    using reachable_activeSpace_range [of s]
      key_callback_activeSpace_range [of s key scancode action mods]
    by (auto simp: initial_state_def enum_defs)
qed

text \<open>The state after a press of '4' in the initial state.\<close>

theorem activeSpace_invariant_witness:
  "activeSpace (dispatch (KeyEvent GLFW_KEY_4 0 GLFW_PRESS 0) initial_state) = 3 \<and>
   activeSpace (dispatch (KeyEvent GLFW_KEY_4 0 GLFW_PRESS 0) initial_state) \<in> {0, 1, 2, 3}"
proof -
  have "reachable (dispatch (KeyEvent GLFW_KEY_4 0 GLFW_PRESS 0) initial_state)"
    by (intro reachable_event reachable_initial)
  then show ?thesis
    using activeSpace_invariant
      [of "dispatch (KeyEvent GLFW_KEY_4 0 GLFW_PRESS 0) initial_state" 0 0 0 0 "[]"]
    by (simp add: key_callback_def glfw_defs enum_defs)
qed

section \<open>The exit codes\<close>

text \<open>
  C6. \<open>main\<close> returns -1 exactly when the window is not created or GLAD is not loaded,
  each time after one line of diagnostic and without reaching the render loop. Otherwise
  the shaders' compile and link failures only add text to the output (none when all three
  succeed): whatever their status, the render loop is entered and run on the inputs, and
  when it ends \<open>main\<close> returns 0. It does end once a close event is polled.
\<close>

theorem main_exit_codes:
  "((\<exists>s. snd (main e) = Some (- 1, s)) \<longleftrightarrow> (\<not> window_created e \<or> \<not> glad_loaded e)) \<and>
   (\<not> window_created e \<longrightarrow>
      main e = (''Failed to create GLFW window'' @ endl, Some (- 1, initial_state))) \<and>
   (window_created e \<and> \<not> glad_loaded e \<longrightarrow>
      main e = (''Failed to initialize GLAD'' @ endl, Some (- 1, initial_state))) \<and>
   (window_created e \<and> glad_loaded e \<longrightarrow>
      main e = (shader_diagnostics e,
        map_option (Pair 0) (render_loop (inputs e) initial_state))) \<and>
   (window_created e \<and> glad_loaded e \<and> inputs e = inp # inps \<longrightarrow>
      snd (main e) = map_option (Pair 0) (render_loop inps (iteration inp initial_state))) \<and>
   (shader_diagnostics e = [] \<longleftrightarrow>
      vertex_compiled e \<and> fragment_compiled e \<and> program_linked e) \<and>
   (window_created e \<and> glad_loaded e \<and> (\<exists>inp \<in> set (inputs e). WindowClose \<in> set (snd inp)) \<longrightarrow>
      (\<exists>s. main e = (shader_diagnostics e, Some (0, s))))"
proof -
  have running: "main e = (shader_diagnostics e,
      map_option (Pair 0) (render_loop (inputs e) initial_state))"
    if "window_created e" "glad_loaded e"
    using that by (simp add: main_def split: option.split)
  have entered: "snd (main e) =
      map_option (Pair 0) (render_loop inps (iteration inp initial_state))"
    if "window_created e" "glad_loaded e" "inputs e = inp # inps"
    using running [OF that(1,2)] that(3) by (simp add: initial_state_def)
  have minus_one: "(\<exists>s. snd (main e) = Some (- 1, s)) \<longleftrightarrow>
      (\<not> window_created e \<or> \<not> glad_loaded e)"
    by (auto simp: main_def split: option.split)
  have closes: "\<exists>s. main e = (shader_diagnostics e, Some (0, s))"
    if "window_created e" "glad_loaded e" "\<exists>inp \<in> set (inputs e). WindowClose \<in> set (snd inp)"
  proof -
    from that(3) obtain s where "render_loop (inputs e) initial_state = Some s"
      using render_loop_terminates by blast
    with running [OF that(1,2)] show ?thesis by simp
  qed
  have fatal: "\<not> window_created e \<longrightarrow>
      main e = (''Failed to create GLFW window'' @ endl, Some (- 1, initial_state))"
    "window_created e \<and> \<not> glad_loaded e \<longrightarrow>
      main e = (''Failed to initialize GLAD'' @ endl, Some (- 1, initial_state))"
    by (simp_all add: main_def)
  from running entered minus_one closes fatal shader_diagnostics_empty [of e]
  show ?thesis by blast
qed

text \<open>
  A run in which GLAD is not loaded, and a run in which the vertex shader does not compile
  and the window is closed during the first frame: the first returns -1, the second
  returns 0 after the compile error's text and one rendered frame.
\<close>

theorem main_exit_codes_witness:
  "main \<lparr>window_created = True, glad_loaded = False, vertex_compiled = True,
         vertex_log = [], fragment_compiled = True, fragment_log = [],
         program_linked = True, program_log = [], inputs = [(0, [WindowClose])]\<rparr> =
     (''Failed to initialize GLAD'' @ endl, Some (- 1, initial_state)) \<and>
   main \<lparr>window_created = True, glad_loaded = True, vertex_compiled = False,
         vertex_log = ''0:1: syntax error'', fragment_compiled = True, fragment_log = [],
         program_linked = True, program_log = [], inputs = [(0, [WindowClose])]\<rparr> =
     (''ERROR::SHADER::VERTEX::COMPILATION_FAILED'' @ endl @ ''0:1: syntax error'' @ endl,
      Some (0, iteration (0, [WindowClose]) initial_state))"
proof -
  let ?e1 = "\<lparr>window_created = True, glad_loaded = False, vertex_compiled = True,
         vertex_log = [], fragment_compiled = True, fragment_log = [],
         program_linked = True, program_log = [], inputs = [(0 :: real, [WindowClose])]\<rparr>"
  let ?e2 = "\<lparr>window_created = True, glad_loaded = True, vertex_compiled = False,
         vertex_log = ''0:1: syntax error'', fragment_compiled = True, fragment_log = [],
         program_linked = True, program_log = [], inputs = [(0 :: real, [WindowClose])]\<rparr>"
  have first: "main ?e1 = (''Failed to initialize GLAD'' @ endl, Some (- 1, initial_state))"
    using main_exit_codes [of ?e1] by simp
  have "window_created ?e2 \<and> glad_loaded ?e2"
    by simp
  then have "main ?e2 = (shader_diagnostics ?e2,
      map_option (Pair 0) (render_loop (inputs ?e2) initial_state))"
    using main_exit_codes [of ?e2] by blast
  moreover have "shouldClose (iteration (0, [WindowClose]) initial_state)"
    by (simp add: iteration_def glfwPollEvents_def)
  ultimately have second: "main ?e2 =
      (''ERROR::SHADER::VERTEX::COMPILATION_FAILED'' @ endl @ ''0:1: syntax error'' @ endl,
       Some (0, iteration (0, [WindowClose]) initial_state))"
    by (simp add: shader_diagnostics_def initial_state_def)
  from first second show ?thesis by (intro conjI)
qed

section \<open>The transforms of a frame\<close>

text \<open>
  C7. Every iteration of the render loop, from whatever state, adds one frame whose model
  matrix is the identity rotated by the time \<open>t\<close> (in radians) about the axis
  \<open>(0.5, 1, 0)\<close>, which is not of length 1; whose view matrix is the identity translated
  by \<open>(0, 0, -3)\<close>; and whose projection is a perspective with a vertical field of view of
  45 degrees, the near plane at 0.1 and the far plane at 100. Nothing of the state enters
  the three matrices.
\<close>

theorem render_transforms:
  "(\<exists>f. frames (iteration (t, evs) s) = frames s @ [f] \<and>
       model_uniform f = Rotate (Mat4 1) t (0.5, 1, 0) \<and>
       view_uniform f = Translate (Mat4 1) (0, 0, - 3) \<and>
       (\<exists>a. projection_uniform f = Perspective (radians 45) a 0.1 100)) \<and>
   radians 45 = pi / 4 \<and> (0.5 :: real)\<^sup>2 + 1\<^sup>2 + 0\<^sup>2 \<noteq> 1"
proof -
  have "\<exists>f. frames (iteration (t, evs) s) = frames s @ [f] \<and>
       model_uniform f = Rotate (Mat4 1) t (0.5, 1, 0) \<and>
       view_uniform f = Translate (Mat4 1) (0, 0, - 3) \<and>
       (\<exists>a. projection_uniform f = Perspective (radians 45) a 0.1 100)"
    using frames_iteration [of t evs s] by auto
  moreover have "(0.5 :: real)\<^sup>2 + 1\<^sup>2 + 0\<^sup>2 \<noteq> 1"
    by (simp add: power2_eq_square)
  ultimately show ?thesis
    using radians_45 by blast
qed

text \<open>The frame rendered at time 2 from the initial state.\<close>

theorem render_transforms_witness:
  "model_uniform (last (frames (iteration (2, []) initial_state))) =
     Rotate (Mat4 1) 2 (0.5, 1, 0) \<and>
   view_uniform (last (frames (iteration (2, []) initial_state))) =
     Translate (Mat4 1) (0, 0, - 3) \<and>
   fovy (projection_uniform (last (frames (iteration (2, []) initial_state)))) = pi / 4 \<and>
   zNear (projection_uniform (last (frames (iteration (2, []) initial_state)))) = 0.1 \<and>
   zFar (projection_uniform (last (frames (iteration (2, []) initial_state)))) = 100"
  using render_transforms [of 2 "[]" initial_state] by auto

section \<open>The geometry of the cube\<close>

text \<open>
  C8. The vertex array holds 8 vertices of 3 coordinates each, every coordinate -0.5 or
  0.5; the 8 vertices are distinct and are the 8 corners of the cube of side 1 about the
  origin. The index array holds 36 indices, which make 12 triangles; the draw call of
  every frame draws 36 indexed vertices of these two arrays, and its 12 triangles lie two
  by two in the 6 faces of the cube (front, right, back, left, top, bottom).
\<close>

theorem cube_geometry:
  "length vertices = 8 * 3 \<and> set vertices = {- 0.5, 0.5} \<and>
   distinct (map (fetch_vertex vertices) [0..<8]) \<and>
   set (map (fetch_vertex vertices) [0..<8]) =
     Some ` ({- 0.5, 0.5} \<times> {- 0.5, 0.5} \<times> {- 0.5, 0.5}) \<and>
   length indices = 36 \<and> length (triangles indices) = 12 \<and>
   (\<exists>ts. glDrawElements vertices indices 36 = Some ts \<and> length ts = 12 \<and>
      map faces_of ts =
        [[(2, 0.5)], [(2, 0.5)], [(0, 0.5)], [(0, 0.5)], [(2, - 0.5)], [(2, - 0.5)],
         [(0, - 0.5)], [(0, - 0.5)], [(1, 0.5)], [(1, 0.5)], [(1, - 0.5)], [(1, - 0.5)]]) \<and>
   (\<exists>f. frames (iteration (t, evs) s) = frames s @ [f] \<and> draw_count f = 36 \<and>
      drawn f = glDrawElements vertices indices (draw_count f))"
proof -
  have faces: "\<exists>ts. glDrawElements vertices indices 36 = Some ts \<and> length ts = 12 \<and>
      map faces_of ts =
        [[(2, 0.5)], [(2, 0.5)], [(0, 0.5)], [(0, 0.5)], [(2, - 0.5)], [(2, - 0.5)],
         [(0, - 0.5)], [(0, - 0.5)], [(1, 0.5)], [(1, 0.5)], [(1, - 0.5)], [(1, - 0.5)]]"
    unfolding draw_cube by (simp add: faces_of_def)
  have call: "\<exists>f. frames (iteration (t, evs) s) = frames s @ [f] \<and> draw_count f = 36 \<and>
      drawn f = glDrawElements vertices indices (draw_count f)"
    using frames_iteration [of t evs s] by auto
  from faces call length_vertices set_vertices corners_distinct corners_set length_indices
    length_triangles_indices
  show ?thesis by (intro conjI)
qed

text \<open>The first frame: its draw call, and the first and the last triangle drawn.\<close>

theorem cube_geometry_witness:
  "draw_count (last (frames (iteration (0, []) initial_state))) = 36 \<and>
   map_option hd (drawn (last (frames (iteration (0, []) initial_state)))) =
     Some ((- 0.5, - 0.5, 0.5), (0.5, - 0.5, 0.5), (0.5, 0.5, 0.5)) \<and>
   map_option last (drawn (last (frames (iteration (0, []) initial_state)))) =
     Some ((0.5, - 0.5, 0.5), (- 0.5, - 0.5, 0.5), (- 0.5, - 0.5, - 0.5))"
  using cube_geometry [of 0 "[]" initial_state] by (auto simp: draw_cube)

text \<open>
  C9. Every entry of the index array is at most 7 (and, unsigned, at least 0), so it reads
  a vertex inside the 8-vertex array: no read of the draw call is out of bounds.
\<close>

theorem indices_in_bounds:
  "(\<forall>i \<in> set indices. 0 \<le> unat i \<and> unat i \<le> 7 \<and> 3 * unat i + 2 < length vertices \<and>
      fetch_vertex vertices (unat i) \<noteq> None) \<and>
   length indices = 36 \<and> length vertices = 8 * 3 \<and>
   glDrawElements vertices indices 36 \<noteq> None"
proof -
  have "\<forall>i \<in> set indices. 0 \<le> unat i \<and> unat i \<le> 7 \<and> 3 * unat i + 2 < length vertices \<and>
      fetch_vertex vertices (unat i) \<noteq> None"
  proof
    fix i
    assume "i \<in> set indices"
    with indices_range have "unat i \<le> 7" by blast
    then show "0 \<le> unat i \<and> unat i \<le> 7 \<and> 3 * unat i + 2 < length vertices \<and>
        fetch_vertex vertices (unat i) \<noteq> None"
      using fetch_vertex_in_range [of "unat i"] by (simp add: length_vertices)
  qed
  moreover have "glDrawElements vertices indices 36 \<noteq> None"
    unfolding draw_cube by simp
  ultimately show ?thesis
    using length_indices length_vertices by blast
qed

text \<open>
  The index at position 17 is 5 and reads the vertex \<open>(0.5, -0.5, -0.5)\<close>; an index 8
  would read past the end of the array.
\<close>

theorem indices_in_bounds_witness:
  "indices ! 17 = 5 \<and> unat (indices ! 17) \<le> 7 \<and>
   fetch_vertex vertices (unat (indices ! 17)) = Some (0.5, - 0.5, - 0.5) \<and>
   fetch_vertex vertices 8 = None"
proof -
  have member: "indices ! 17 \<in> set indices"
    by (simp add: indices_def)
  have "unat (indices ! 17) \<le> 7"
    using indices_in_bounds member by blast
  moreover have "indices ! 17 = 5"
    by (simp add: indices_def)
  moreover have "fetch_vertex vertices (unat (5 :: c_uint)) = Some (0.5, - 0.5, - 0.5)"
    by (simp add: fetch_vertex_def vertices_def)
  moreover have "fetch_vertex vertices 8 = None"
    by (simp add: fetch_vertex_def vertices_def)
  ultimately show ?thesis by simp
qed

section \<open>The shader outside the four spaces\<close>

text \<open>
  C10. For an \<open>activeSpace\<close> other than 0, 1, 2 and 3 no branch of the shader is taken:
  neither \<open>gl_Position\<close> nor \<open>vertexColor\<close> is assigned. The host never uploads such a
  value: in every frame of every reachable state the uniform is one of the four, and both
  outputs are assigned.
\<close>

theorem vertex_shader_fall_through:
  "(space \<notin> {0, 1, 2, 3} \<longrightarrow>
      gl_Position (vertex_shader model view projection space aPos) = None \<and>
      vertexColor (vertex_shader model view projection space aPos) = None) \<and>
   (reachable s \<and> f \<in> set (frames s) \<longrightarrow>
      activeSpace_uniform f \<in> {0, 1, 2, 3} \<and>
      gl_Position (vertex_shader model view projection (activeSpace_uniform f) aPos) \<noteq> None \<and>
      vertexColor (vertex_shader model view projection (activeSpace_uniform f) aPos) \<noteq> None)"
proof -
  have outside: "gl_Position (vertex_shader model view projection space aPos) = None \<and>
      vertexColor (vertex_shader model view projection space aPos) = None"
    if "space \<notin> {0, 1, 2, 3}"
    using that by (simp add: vertex_shader_def Let_def)
  have inside: "gl_Position (vertex_shader model view projection u aPos) \<noteq> None \<and>
      vertexColor (vertex_shader model view projection u aPos) \<noteq> None"
    if "u \<in> {0, 1, 2, 3}" for u
    using that by (auto simp: vertex_shader_def Let_def simp del: not_None_eq)
  show ?thesis
    using outside inside reachable_frames_uniform [of s f] by blast
qed

text \<open>
  The shader at the values 4 and -1, and at the uniform of the first frame, which is 0.
\<close>

theorem vertex_shader_fall_through_witness:
  "gl_Position (vertex_shader
      ((2, 0, 0, 0), (0, 2, 0, 0), (0, 0, 2, 0), (0, 0, 0, 1))
      ((1, 0, 0, 0), (0, 1, 0, 0), (0, 0, 1, 0), (0, 0, - 3, 1))
      ((1, 0, 0, 0), (0, 1, 0, 0), (0, 0, 1, 0), (0, 0, 0, 1))
      4 (1, 2, 3 :: int)) = None \<and>
   vertexColor (vertex_shader
      ((2, 0, 0, 0), (0, 2, 0, 0), (0, 0, 2, 0), (0, 0, 0, 1))
      ((1, 0, 0, 0), (0, 1, 0, 0), (0, 0, 1, 0), (0, 0, - 3, 1))
      ((1, 0, 0, 0), (0, 1, 0, 0), (0, 0, 1, 0), (0, 0, 0, 1))
      (- 1) (1, 2, 3 :: int)) = None \<and>
   activeSpace_uniform (last (frames (render 0 initial_state))) = 0 \<and>
   vertexColor (vertex_shader
      ((2, 0, 0, 0), (0, 2, 0, 0), (0, 0, 2, 0), (0, 0, 0, 1))
      ((1, 0, 0, 0), (0, 1, 0, 0), (0, 0, 1, 0), (0, 0, - 3, 1))
      ((1, 0, 0, 0), (0, 1, 0, 0), (0, 0, 1, 0), (0, 0, 0, 1))
      (activeSpace_uniform (last (frames (render 0 initial_state)))) (1, 2, 3 :: int)) \<noteq> None"
proof -
  let ?M = "((2, 0, 0, 0), (0, 2, 0, 0), (0, 0, 2, 0), (0, 0, 0, 1)) :: int mat4"
  let ?V = "((1, 0, 0, 0), (0, 1, 0, 0), (0, 0, 1, 0), (0, 0, - 3, 1)) :: int mat4"
  let ?P = "((1, 0, 0, 0), (0, 1, 0, 0), (0, 0, 1, 0), (0, 0, 0, 1)) :: int mat4"
  let ?s = "render 0 initial_state"
  have r: "reachable ?s"
    by (intro reachable_render reachable_initial)
  have m: "last (frames ?s) \<in> set (frames ?s)"
    by (simp add: render_def Let_def)
  have four: "gl_Position (vertex_shader ?M ?V ?P 4 (1, 2, 3)) = None"
    using vertex_shader_fall_through [of 4 ?M ?V ?P "(1, 2, 3)" ?s "last (frames ?s)"]
    by simp
  have minus: "vertexColor (vertex_shader ?M ?V ?P (- 1) (1, 2, 3)) = None"
    using vertex_shader_fall_through [of "- 1" ?M ?V ?P "(1, 2, 3)" ?s "last (frames ?s)"]
    by simp
  have u: "activeSpace_uniform (last (frames ?s)) = 0"
    by (simp add: render_def Let_def initial_state_def enum_defs)
  have assigned: "vertexColor (vertex_shader ?M ?V ?P
      (activeSpace_uniform (last (frames ?s))) (1, 2, 3)) \<noteq> None"
    using vertex_shader_fall_through [of 4 ?M ?V ?P "(1, 2, 3)" ?s "last (frames ?s)"] r m
    by blast
  from four minus u assigned show ?thesis by (intro conjI)
qed

end
